theory Spec2Isabelle
  imports Complex_Main
begin

section \<open>Mermaid Chart Studio: the editor component of \<^verbatim>\<open>src/app/page.tsx\<close>\<close>

text \<open>
  The repository is one React component, \<^verbatim>\<open>MermaidEditor\<close>. Its state cells
  (\<^verbatim>\<open>useState\<close>), its refs and the parts of the browser it talks to (one pending
  timeout, the awaited calls of \<^verbatim>\<open>mermaid.render\<close>, the configuration of the
  mermaid library, one slot of \<^verbatim>\<open>localStorage\<close>) are the fields of one record.
  Every event handler and every effect is a function on that record. A state setter is
  modelled together with the effects that React runs again because one of their
  dependencies changed; state updates are committed before the next event arrives.
\<close>

subsection \<open>Values of the host language\<close>

text \<open>
  A JavaScript string is a sequence of UTF-16 code units. \<open>js\<close> embeds an ASCII
  literal.
\<close>

type_synonym jsstring = "nat list"

definition js :: "string \<Rightarrow> jsstring" where
  "js cs = map of_char cs"

text \<open>
  \<^verbatim>\<open>String.prototype.trim\<close> strips the code units of the productions WhiteSpace and
  LineTerminator of ECMAScript: TAB, LF, VT, FF, CR, SP, NBSP, the other space separators
  (U+1680, U+2000 to U+200A, U+202F, U+205F, U+3000), LS, PS and U+FEFF.
\<close>

definition isWhiteSpace :: "nat \<Rightarrow> bool" where
  "isWhiteSpace c =
     (c \<in> {9, 10, 11, 12, 13, 32, 160, 5760, 8232, 8233, 8239, 8287, 12288, 65279}
      \<or> (8192 \<le> c \<and> c \<le> 8202))"

definition trim :: "jsstring \<Rightarrow> jsstring" where
  "trim t = rev (dropWhile isWhiteSpace (rev (dropWhile isWhiteSpace t)))"

text \<open>
  A JavaScript number, as far as the splitter needs it: a finite value, an infinity or
  NaN. Finite arithmetic is exact here (the rounding of IEEE doubles is left out); what
  is modelled to the letter is division by zero and the behaviour of
  \<^verbatim>\<open>Math.max\<close> and \<^verbatim>\<open>Math.min\<close> on the special values.
\<close>

datatype jsnum = Fin rat | PosInf | NegInf | NaN

fun js_div :: "rat \<Rightarrow> rat \<Rightarrow> jsnum" where
  "js_div a b =
     (if b = 0 then (if a = 0 then NaN else if 0 < a then PosInf else NegInf)
      else Fin (a / b))"

fun js_times :: "jsnum \<Rightarrow> rat \<Rightarrow> jsnum" where
  "js_times (Fin a) k = Fin (a * k)"
| "js_times PosInf k = (if k = 0 then NaN else if 0 < k then PosInf else NegInf)"
| "js_times NegInf k = (if k = 0 then NaN else if 0 < k then NegInf else PosInf)"
| "js_times NaN k = NaN"

fun Math_max :: "jsnum \<Rightarrow> jsnum \<Rightarrow> jsnum" where
  "Math_max NaN y = NaN"
| "Math_max x NaN = NaN"
| "Math_max PosInf y = PosInf"
| "Math_max x PosInf = PosInf"
| "Math_max NegInf y = y"
| "Math_max x NegInf = x"
| "Math_max (Fin a) (Fin b) = Fin (max a b)"

fun Math_min :: "jsnum \<Rightarrow> jsnum \<Rightarrow> jsnum" where
  "Math_min NaN y = NaN"
| "Math_min x NaN = NaN"
| "Math_min NegInf y = NegInf"
| "Math_min x NegInf = NegInf"
| "Math_min PosInf y = y"
| "Math_min x PosInf = x"
| "Math_min (Fin a) (Fin b) = Fin (min a b)"

text \<open>
  The values \<^verbatim>\<open>JSON.parse\<close> returns. A number literal too large for a double
  parses to an infinity.
\<close>

datatype jsvalue =
    JNull
  | JBool bool
  | JNum jsnum
  | JStr jsstring
  | JArr "jsvalue list"
  | JObj "(jsstring \<times> jsvalue) list"

text \<open>
  The content of a \<^verbatim>\<open>localStorage\<close> slot is a string. The component only ever tests
  it for emptiness and hands it to \<^verbatim>\<open>JSON.parse\<close>, so a stored string is
  represented by what these two do with it: the empty string, a non-empty string on which
  \<^verbatim>\<open>JSON.parse\<close> throws, or a JSON text of a value. \<^verbatim>\<open>JSON.stringify\<close> writes a
  number that is not finite as \<^verbatim>\<open>null\<close> and everything else as it is, so the text
  it returns is a text of the value \<open>serialisable\<close> gives.
\<close>

datatype blob = Empty | Corrupt | Json jsvalue

fun JSON_parse :: "blob \<Rightarrow> jsvalue option" where
  "JSON_parse (Json v) = Some v"
| "JSON_parse Empty = None"
| "JSON_parse Corrupt = None"

fun serialisable :: "jsvalue \<Rightarrow> jsvalue" where
  "serialisable (JNum (Fin a)) = JNum (Fin a)"
| "serialisable (JNum x) = JNull"
| "serialisable (JArr xs) = JArr (map serialisable xs)"
| "serialisable (JObj kvs) = JObj (map (\<lambda>(k, v). (k, serialisable v)) kvs)"
| "serialisable v = v"

definition JSON_stringify :: "jsvalue \<Rightarrow> blob" where
  "JSON_stringify v = Json (serialisable v)"

subsection \<open>The state of the component\<close>

text \<open>\<^verbatim>\<open>type MermaidTheme = 'default' | 'dark' | 'forest' | 'neutral' | 'base';\<close>\<close>

datatype MermaidTheme = Default | Dark | Forest | Neutral | Base

text \<open>
  A pending \<^verbatim>\<open>setTimeout\<close>: the milliseconds left, and the \<^verbatim>\<open>code\<close> and
  \<^verbatim>\<open>mounted\<close> that the scheduled \<^verbatim>\<open>renderDiagram\<close> closed over.
  An awaited \<^verbatim>\<open>mermaid.render(id, code)\<close>: the counter in its id, its text and the
  theme mermaid was initialised with when it was called.
\<close>

type_synonym timeout = "nat \<times> jsstring \<times> bool"
type_synonym render_call = "nat \<times> jsstring \<times> MermaidTheme option"

record session =
  code :: jsstring
  mermaidTheme :: MermaidTheme
  zoom :: int
  error :: jsstring
  isFullscreen :: bool
  savedDiagrams :: jsvalue
  mounted :: bool
  editorWidth :: jsnum
  isResizing :: bool
  isDark :: bool
  idCounter :: nat
  innerHTML :: jsstring
  svgStyled :: bool
  timer :: "timeout option"
  inflight :: "render_call list"
  mermaid_theme :: "MermaidTheme option"
  localStorage :: "blob option"

text \<open>The first template, the initial value of \<^verbatim>\<open>code\<close>.\<close>

definition templates_flowchart :: jsstring where
  "templates_flowchart =
     js ''graph TD'' @ [10] @
     js ''    A[Start] --> B{Decision}'' @ [10] @
     js ''    B -->|Yes| C[Process 1]'' @ [10] @
     js ''    B -->|No| D[Process 2]'' @ [10] @
     js ''    C --> E[End]'' @ [10] @
     js ''    D --> E''"

text \<open>
  The initial values of the \<^verbatim>\<open>useState\<close> cells and refs (lines 84 to 100), over a
  given content of the storage slot and a given colour scheme of the page.
\<close>

definition initial :: "blob option \<Rightarrow> bool \<Rightarrow> session" where
  "initial store dark =
     \<lparr> code = templates_flowchart, mermaidTheme = Default, zoom = 100, error = [],
       isFullscreen = False, savedDiagrams = JArr [], mounted = False,
       editorWidth = Fin 50, isResizing = False, isDark = dark, idCounter = 0,
       innerHTML = [], svgStyled = False, timer = None, inflight = [], mermaid_theme = None,
       localStorage = store \<rparr>"

subsection \<open>Viewport: zoom\<close>

text \<open>
  \<^verbatim>\<open>const handleZoomIn = () => setZoom((prev) => Math.min(prev + 10, 200));\<close>
  \<^verbatim>\<open>const handleZoomOut = () => setZoom((prev) => Math.max(prev - 10, 50));\<close>
  The zoom starts at 100 and takes integer values only, so \<open>int\<close> is exact.
\<close>

definition handleZoomIn :: "session \<Rightarrow> session" where
  "handleZoomIn s = s\<lparr>zoom := min (zoom s + 10) 200\<rparr>"

definition handleZoomOut :: "session \<Rightarrow> session" where
  "handleZoomOut s = s\<lparr>zoom := max (zoom s - 10) 50\<rparr>"

subsection \<open>The debounced render pipeline\<close>

text \<open>
  The effect of lines 119 to 161 calls \<^verbatim>\<open>mermaid.initialize({theme: mermaidTheme, ...})\<close>
  once the component is mounted, and again whenever \<^verbatim>\<open>mermaidTheme\<close> changes.
\<close>

definition initialize :: "session \<Rightarrow> session" where
  "initialize s = (if mounted s then s\<lparr>mermaid_theme := Some (mermaidTheme s)\<rparr> else s)"

text \<open>
  The effect of lines 183 to 188: its cleanup clears the pending timeout, its body
  schedules \<^verbatim>\<open>renderDiagram\<close> in 500 ms. It depends on
  \<^verbatim>\<open>[code, mermaidTheme, renderDiagram]\<close>, and \<^verbatim>\<open>renderDiagram\<close> is a
  \<^verbatim>\<open>useCallback\<close> over \<^verbatim>\<open>[code, mounted]\<close>: the effect runs again exactly when
  one of \<^verbatim>\<open>code\<close>, \<^verbatim>\<open>mermaidTheme\<close>, \<^verbatim>\<open>mounted\<close> has changed.
\<close>

definition arm :: "session \<Rightarrow> session" where
  "arm s = s\<lparr>timer := Some (500, code s, mounted s)\<rparr>"

text \<open>
  \<^verbatim>\<open>setCode\<close> (the textarea, the template buttons, \<^verbatim>\<open>loadDiagram\<close>) and
  \<^verbatim>\<open>setMermaidTheme\<close> (the theme selector). Setting a cell to the value it has
  is dropped by React: nothing renders again and no effect runs.
\<close>

definition setCode :: "jsstring \<Rightarrow> session \<Rightarrow> session" where
  "setCode t s = (if t = code s then s else arm (s\<lparr>code := t\<rparr>))"

definition setMermaidTheme :: "MermaidTheme \<Rightarrow> session \<Rightarrow> session" where
  "setMermaidTheme th s =
     (if th = mermaidTheme s then s else arm (initialize (s\<lparr>mermaidTheme := th\<rparr>)))"

definition loadDiagram :: "jsstring \<Rightarrow> session \<Rightarrow> session" where
  "loadDiagram diagramCode s = setCode diagramCode s"

text \<open>
  The effect of lines 109 to 117 follows the colour scheme of the page; it runs when
  \<^verbatim>\<open>isDark\<close> or \<^verbatim>\<open>mounted\<close> has changed.
\<close>

definition theme_sync :: "session \<Rightarrow> session" where
  "theme_sync s =
     (if mounted s then
        (if isDark s \<and> mermaidTheme s = Default then setMermaidTheme Dark s
         else if \<not> isDark s \<and> mermaidTheme s = Dark then setMermaidTheme Default s
         else s)
      else s)"

definition setIsDark :: "bool \<Rightarrow> session \<Rightarrow> session" where
  "setIsDark b s = (if b = isDark s then s else theme_sync (s\<lparr>isDark := b\<rparr>))"

text \<open>
  Lines 611 to 623 render the \<^verbatim>\<open>div\<close> that carries \<^verbatim>\<open>ref={diagramRef}\<close> only
  when \<^verbatim>\<open>error\<close> is the empty string, and line 359 renders nothing before the
  component is mounted. React sets a ref to \<^verbatim>\<open>null\<close> when its element is not on
  the page, so \<^verbatim>\<open>diagramRef.current\<close> is an element exactly in the states below.
\<close>

definition diagramRef_current :: "session \<Rightarrow> bool" where
  "diagramRef_current s = (mounted s \<and> error s = [])"

text \<open>
  \<^verbatim>\<open>setError\<close>. The two branches of lines 612 to 623 are both a \<^verbatim>\<open>div\<close> in the
  same place, so React keeps the element and only takes the ref off it: what was
  assigned to its \<^verbatim>\<open>innerHTML\<close> stays in it, next to the message.
\<close>

definition setError :: "jsstring \<Rightarrow> session \<Rightarrow> session" where
  "setError msg s = s\<lparr>error := msg\<rparr>"

text \<open>
  \<^verbatim>\<open>renderDiagram\<close> (lines 163 to 181) is an \<^verbatim>\<open>async\<close> function with one
  \<^verbatim>\<open>await\<close>. \<open>renderDiagram\<close> is the part that runs when the function is called, up
  to the call of \<^verbatim>\<open>mermaid.render\<close>; its arguments \<open>c\<close> and \<open>m\<close> are the
  \<^verbatim>\<open>code\<close> and \<^verbatim>\<open>mounted\<close> of its closure. \<open>renderDiagram_settled\<close> is the part
  that runs when the promise of call \<open>i\<close> settles. Other events may be handled between
  the two.
\<close>

definition renderDiagram :: "jsstring \<Rightarrow> bool \<Rightarrow> session \<Rightarrow> session" where
  "renderDiagram c m s =
     (if \<not> diagramRef_current s \<or> trim c = [] \<or> \<not> m then s
      else (setError [] s)
             \<lparr>idCounter := idCounter s + 1,
              inflight := inflight s @ [(idCounter s, c, mermaid_theme s)]\<rparr>)"

text \<open>
  How the promise settles: resolved with \<^verbatim>\<open>{svg}\<close>, or rejected with an error whose
  \<^verbatim>\<open>message\<close> may be missing. With the markup comes whether it holds an
  \<^verbatim>\<open>svg\<close> element, which is what \<^verbatim>\<open>querySelector('svg')\<close> of line 172 finds out.
\<close>

datatype outcome = Resolved jsstring bool | Rejected "jsstring option"

text \<open>\<^verbatim>\<open>err?.message || 'Invalid Mermaid syntax'\<close>\<close>

definition catch_message :: "jsstring option \<Rightarrow> jsstring" where
  "catch_message m =
     (case m of
        None \<Rightarrow> js ''Invalid Mermaid syntax''
      | Some x \<Rightarrow> (if x = [] then js ''Invalid Mermaid syntax'' else x))"

text \<open>
  The message of the \<^verbatim>\<open>TypeError\<close> that the assignment
  \<^verbatim>\<open>diagramRef.current.innerHTML = svg\<close> throws when \<^verbatim>\<open>diagramRef.current\<close> is
  \<^verbatim>\<open>null\<close> (the wording of V8; every engine gives a non-empty one).
\<close>

definition null_innerHTML_message :: jsstring where
  "null_innerHTML_message = js ''Cannot set properties of null (setting 'innerHTML')''"

text \<open>
  \<^verbatim>\<open>mermaid.render\<close> runs its calls one after the other in the order they were made,
  so the call that settles is the oldest one awaited: \<open>renderDiagram_settled i\<close> does
  nothing unless \<open>i\<close> is that call. Lines 170 to 176 assign the markup and, when it
  holds an \<^verbatim>\<open>svg\<close> element, set \<^verbatim>\<open>maxWidth\<close> and \<^verbatim>\<open>height\<close> on it; \<open>svgStyled\<close>
  records that this was done to the markup now in the \<^verbatim>\<open>div\<close>.
\<close>

definition renderDiagram_settled :: "nat \<Rightarrow> outcome \<Rightarrow> session \<Rightarrow> session" where
  "renderDiagram_settled i out s =
     (case inflight s of
        [] \<Rightarrow> s
      | call # calls \<Rightarrow>
          (if fst call \<noteq> i then s
           else
             (let s1 = s\<lparr>inflight := calls\<rparr> in
              case out of
                Resolved svg has_svg \<Rightarrow>
                  (if diagramRef_current s1 then s1\<lparr>innerHTML := svg, svgStyled := has_svg\<rparr>
                   else setError (catch_message (Some null_innerHTML_message)) s1)
              | Rejected m \<Rightarrow> setError (catch_message m) s1)))"

text \<open>
  Time passes: \<open>d\<close> milliseconds. A pending timeout whose delay is over runs its
  callback, \<^verbatim>\<open>renderDiagram()\<close>.
\<close>

definition elapse :: "nat \<Rightarrow> session \<Rightarrow> session" where
  "elapse d s =
     (case timer s of
        None \<Rightarrow> s
      | Some (r, c, m) \<Rightarrow>
          (if d < r then s\<lparr>timer := Some (r - d, c, m)\<rparr>
           else renderDiagram c m (s\<lparr>timer := None\<rparr>)))"

text \<open>
  What the preview panel shows (lines 611 to 623): the diagram \<^verbatim>\<open>div\<close> with the
  markup assigned to it and whether its \<^verbatim>\<open>svg\<close> was styled, or the error box with the
  message, in which that markup is still present.
\<close>

datatype display =
    ShowError jsstring "jsstring \<times> bool"
  | ShowDiagram "jsstring \<times> bool"

definition preview :: "session \<Rightarrow> display" where
  "preview s =
     (if error s \<noteq> [] then ShowError (error s) (innerHTML s, svgStyled s)
      else ShowDiagram (innerHTML s, svgStyled s))"

subsection \<open>Viewport: fullscreen\<close>

text \<open>
  \<^verbatim>\<open>toggleFullscreen\<close> (lines 203 to 233) calls the first fullscreen method the
  browser has, on the preview panel to enter and on the document to leave, awaits it
  and logs a rejection. It sets no state. \<open>has\<close> tells which methods exist; the
  result is the method called, if any. The preview panel is on the page once the
  component is mounted.
\<close>

datatype fullscreen_method =
    requestFullscreen | webkitRequestFullscreen | mozRequestFullScreen | msRequestFullscreen
  | exitFullscreen | webkitExitFullscreen | mozCancelFullScreen | msExitFullscreen

definition toggleFullscreen ::
    "(fullscreen_method \<Rightarrow> bool) \<Rightarrow> session \<Rightarrow> session \<times> fullscreen_method option" where
  "toggleFullscreen has s =
     (if \<not> mounted s then (s, None)
      else if \<not> isFullscreen s then
        (s, if has requestFullscreen then Some requestFullscreen
            else if has webkitRequestFullscreen then Some webkitRequestFullscreen
            else if has mozRequestFullScreen then Some mozRequestFullScreen
            else if has msRequestFullscreen then Some msRequestFullscreen
            else None)
      else
        (s, if has exitFullscreen then Some exitFullscreen
            else if has webkitExitFullscreen then Some webkitExitFullscreen
            else if has mozCancelFullScreen then Some mozCancelFullScreen
            else if has msExitFullscreen then Some msExitFullscreen
            else None))"

text \<open>
  The document as \<^verbatim>\<open>handleFullscreenChange\<close> (lines 237 to 245) reads it: whether
  each of the four properties holds an element.
\<close>

record document =
  fullscreenElement :: bool
  webkitFullscreenElement :: bool
  mozFullScreenElement :: bool
  msFullscreenElement :: bool

definition handleFullscreenChange :: "document \<Rightarrow> session \<Rightarrow> session" where
  "handleFullscreenChange doc s =
     s\<lparr>isFullscreen :=
         (fullscreenElement doc \<or> webkitFullscreenElement doc
          \<or> mozFullScreenElement doc \<or> msFullscreenElement doc)\<rparr>"

subsection \<open>The layout splitter\<close>

definition handleMouseDown :: "session \<Rightarrow> session" where
  "handleMouseDown s = s\<lparr>isResizing := True\<rparr>"

definition handleMouseUp :: "session \<Rightarrow> session" where
  "handleMouseUp s = s\<lparr>isResizing := False\<rparr>"

text \<open>
  \<^verbatim>\<open>handleMouseMove\<close> (lines 267 to 276), over \<^verbatim>\<open>e.clientX\<close> and the
  \<^verbatim>\<open>left\<close> and \<^verbatim>\<open>width\<close> of the container's bounding rectangle, all finite.
  The container is on the page once the component is mounted.
\<close>

definition constrainedWidth :: "rat \<Rightarrow> rat \<Rightarrow> rat \<Rightarrow> jsnum" where
  "constrainedWidth clientX left width =
     (let newWidth = js_times (js_div (clientX - left) width) 100
      in Math_min (Math_max newWidth (Fin 20)) (Fin 80))"

definition handleMouseMove :: "rat \<Rightarrow> rat \<Rightarrow> rat \<Rightarrow> session \<Rightarrow> session" where
  "handleMouseMove clientX left width s =
     (if \<not> isResizing s \<or> \<not> mounted s then s
      else s\<lparr>editorWidth := constrainedWidth clientX left width\<rparr>)"

subsection \<open>Saved diagrams\<close>

text \<open>
  A handler either returns or is left by an exception; either way the state it has set
  by then stands.

  The spread \<^verbatim>\<open>[...savedDiagrams]\<close> iterates an array by elements and a string by
  code points (a high surrogate followed by a low one is one code point); anything else
  that JSON can yield is not iterable and the spread throws a \<^verbatim>\<open>TypeError\<close>.
\<close>

datatype completion = Returned session | Thrown session

fun state_of :: "completion \<Rightarrow> session" where
  "state_of (Returned s) = s"
| "state_of (Thrown s) = s"

fun code_points :: "jsstring \<Rightarrow> jsstring list" where
  "code_points (h # l # cs) =
     (if 55296 \<le> h \<and> h \<le> 56319 \<and> 56320 \<le> l \<and> l \<le> 57343
      then [h, l] # code_points cs else [h] # code_points (l # cs))"
| "code_points [c] = [[c]]"
| "code_points [] = []"

fun spread :: "jsvalue \<Rightarrow> jsvalue list option" where
  "spread (JArr xs) = Some xs"
| "spread (JStr t) = Some (map JStr (code_points t))"
| "spread v = None"

text \<open>The object \<^verbatim>\<open>{ name, code }\<close>.\<close>

definition diagram :: "jsstring \<Rightarrow> jsstring \<Rightarrow> jsvalue" where
  "diagram n c = JObj [(js ''name'', JStr n), (js ''code'', JStr c)]"

text \<open>
  \<^verbatim>\<open>saveDiagram\<close> (lines 336 to 343). \<open>answer\<close> is what \<^verbatim>\<open>prompt\<close> returned:
  \<open>None\<close> when the dialog was cancelled. \<open>writable\<close> tells whether
  \<^verbatim>\<open>localStorage.setItem\<close> accepts the write; when it does not (the quota is
  exceeded, storage is disabled) it throws, after \<^verbatim>\<open>setSavedDiagrams\<close> has run.
\<close>

definition saveDiagram :: "jsstring option \<Rightarrow> bool \<Rightarrow> session \<Rightarrow> completion" where
  "saveDiagram answer writable s =
     (case answer of
        None \<Rightarrow> Returned s
      | Some n \<Rightarrow>
          (if n = [] then Returned s
           else
             (case spread (savedDiagrams s) of
                None \<Rightarrow> Thrown s
              | Some xs \<Rightarrow>
                  (let newDiagrams = JArr (xs @ [diagram n (code s)]);
                       s1 = s\<lparr>savedDiagrams := newDiagrams\<rparr>
                   in if writable
                      then Returned (s1\<lparr>localStorage := Some (JSON_stringify newDiagrams)\<rparr>)
                      else Thrown s1))))"

text \<open>
  \<^verbatim>\<open>deleteDiagram\<close> (lines 345 to 350). \<open>confirmed\<close> is what \<^verbatim>\<open>confirm\<close>
  returned. \<^verbatim>\<open>filter((_, i) => i !== index)\<close> keeps the elements whose position is
  not \<open>index\<close>; only an array has the method.
\<close>

definition filter_index :: "nat \<Rightarrow> 'a list \<Rightarrow> 'a list" where
  "filter_index index xs =
     map fst (filter (\<lambda>(x, i). i \<noteq> index) (zip xs [0 ..< length xs]))"

definition deleteDiagram :: "nat \<Rightarrow> bool \<Rightarrow> bool \<Rightarrow> session \<Rightarrow> completion" where
  "deleteDiagram index confirmed writable s =
     (if \<not> confirmed then Returned s
      else
        (case savedDiagrams s of
           JArr xs \<Rightarrow>
             (let newDiagrams = JArr (filter_index index xs);
                  s1 = s\<lparr>savedDiagrams := newDiagrams\<rparr>
              in if writable
                 then Returned (s1\<lparr>localStorage := Some (JSON_stringify newDiagrams)\<rparr>)
                 else Thrown s1)
         | _ \<Rightarrow> Thrown s))"

text \<open>
  The effect of lines 190 to 200, run once when \<^verbatim>\<open>mounted\<close> has become true.
  \<^verbatim>\<open>if (saved)\<close> skips a missing slot and the empty string; a \<^verbatim>\<open>SyntaxError\<close> of
  \<^verbatim>\<open>JSON.parse\<close> is caught and logged.
\<close>

definition load_saved :: "session \<Rightarrow> session" where
  "load_saved s =
     (if \<not> mounted s then s
      else
        (case localStorage s of
           None \<Rightarrow> s
         | Some saved \<Rightarrow>
             (if saved = Empty then s
              else
                (case JSON_parse saved of
                   Some v \<Rightarrow> s\<lparr>savedDiagrams := v\<rparr>
                 | None \<Rightarrow> s))))"

subsection \<open>Mounting, and the events of a session\<close>

text \<open>
  The first render shows nothing (line 359); its effects arm the timeout and set
  \<^verbatim>\<open>mounted\<close> (lines 105 to 107). The render that follows runs every effect that
  depends on \<^verbatim>\<open>mounted\<close>.
\<close>

definition start :: "blob option \<Rightarrow> bool \<Rightarrow> session" where
  "start store dark =
     (let s1 = arm (initial store dark);
          s2 = arm (initialize (s1\<lparr>mounted := True\<rparr>))
      in theme_sync (load_saved s2))"

text \<open>
  The render that follows the loading evaluates lines 520 to 549 (the sidebar is shown
  at the start, line 91): \<^verbatim>\<open>savedDiagrams.length > 0\<close>, then
  \<^verbatim>\<open>savedDiagrams.map\<close> with \<^verbatim>\<open>diagram.name\<close> as a child of each button
  (\<^verbatim>\<open>diagram.code\<close> is read only on a click). Reading a property of \<^verbatim>\<open>null\<close>
  throws, \<^verbatim>\<open>map\<close> exists on arrays only, and React throws on a child that is an
  object. \<open>None\<close> is a render that throws; nothing in the repository catches it and
  React removes the component. Otherwise the result is the list of the children.
  \<open>N\<close> is the conversion to a number of ECMAScript for strings, arrays and objects,
  needed only to compare the \<^verbatim>\<open>length\<close> property of a stored object with 0.
\<close>

fun gt_zero :: "jsnum \<Rightarrow> bool" where
  "gt_zero (Fin a) = (0 < a)"
| "gt_zero PosInf = True"
| "gt_zero x = False"

fun ToNumber :: "(jsvalue \<Rightarrow> jsnum) \<Rightarrow> jsvalue \<Rightarrow> jsnum" where
  "ToNumber N (JNum x) = x"
| "ToNumber N JNull = Fin 0"
| "ToNumber N (JBool b) = Fin (if b then 1 else 0)"
| "ToNumber N v = N v"

fun length_gt_zero :: "(jsvalue \<Rightarrow> jsnum) \<Rightarrow> jsvalue \<Rightarrow> bool option" where
  "length_gt_zero N JNull = None"
| "length_gt_zero N (JArr xs) = Some (xs \<noteq> [])"
| "length_gt_zero N (JStr t) = Some (t \<noteq> [])"
| "length_gt_zero N (JObj kvs) =
     Some (case map_of kvs (js ''length'') of
             None \<Rightarrow> False
           | Some v \<Rightarrow> gt_zero (ToNumber N v))"
| "length_gt_zero N v = Some False"

fun diagram_name :: "jsvalue \<Rightarrow> jsvalue option option" where
  "diagram_name JNull = None"
| "diagram_name (JObj kvs) = Some (map_of kvs (js ''name''))"
| "diagram_name v = Some None"

fun valid_child :: "jsvalue \<Rightarrow> bool" where
  "valid_child (JObj kvs) = False"
| "valid_child (JArr xs) = list_all valid_child xs"
| "valid_child v = True"

fun saved_buttons :: "jsvalue list \<Rightarrow> jsvalue option list option" where
  "saved_buttons [] = Some []"
| "saved_buttons (x # xs) =
     (case diagram_name x of
        None \<Rightarrow> None
      | Some child \<Rightarrow>
          (if \<not> (case child of None \<Rightarrow> True | Some v \<Rightarrow> valid_child v) then None
           else map_option (\<lambda>children. child # children) (saved_buttons xs)))"

definition saved_section :: "(jsvalue \<Rightarrow> jsnum) \<Rightarrow> jsvalue \<Rightarrow> jsvalue option list option" where
  "saved_section N v =
     (case length_gt_zero N v of
        None \<Rightarrow> None
      | Some False \<Rightarrow> Some []
      | Some True \<Rightarrow> (case v of JArr xs \<Rightarrow> saved_buttons xs | _ \<Rightarrow> None))"

text \<open>
  Mounting as a whole: the state the effects leave, unless the render of the loaded
  value throws.
\<close>

definition mount :: "(jsvalue \<Rightarrow> jsnum) \<Rightarrow> blob option \<Rightarrow> bool \<Rightarrow> session option" where
  "mount N store dark =
     (case saved_section N (savedDiagrams (start store dark)) of
        None \<Rightarrow> None
      | Some children \<Rightarrow> Some (start store dark))"

datatype event =
    SetCode jsstring
  | SetMermaidTheme MermaidTheme
  | SetIsDark bool
  | Elapse nat
  | Settled nat outcome
  | ZoomIn
  | ZoomOut
  | ToggleFullscreen "fullscreen_method \<Rightarrow> bool"
  | FullscreenChange document
  | MouseDown
  | MouseMove rat rat rat
  | MouseUp
  | SaveDiagram "jsstring option" bool
  | DeleteDiagram nat bool bool

fun step :: "event \<Rightarrow> session \<Rightarrow> session" where
  "step (SetCode t) s = setCode t s"
| "step (SetMermaidTheme th) s = setMermaidTheme th s"
| "step (SetIsDark b) s = setIsDark b s"
| "step (Elapse d) s = elapse d s"
| "step (Settled i out) s = renderDiagram_settled i out s"
| "step ZoomIn s = handleZoomIn s"
| "step ZoomOut s = handleZoomOut s"
| "step (ToggleFullscreen has) s = fst (toggleFullscreen has s)"
| "step (FullscreenChange doc) s = handleFullscreenChange doc s"
| "step MouseDown s = handleMouseDown s"
| "step (MouseMove x l w) s = handleMouseMove x l w s"
| "step MouseUp s = handleMouseUp s"
| "step (SaveDiagram answer w) s = state_of (saveDiagram answer w s)"
| "step (DeleteDiagram i ok w) s = state_of (deleteDiagram i ok w s)"

fun run :: "event list \<Rightarrow> session \<Rightarrow> session" where
  "run [] s = s"
| "run (e # es) s = run es (step e s)"

subsection \<open>Notions used to state the properties\<close>

text \<open>A text that is empty or consists of white space only.\<close>

definition blank :: "jsstring \<Rightarrow> bool" where
  "blank t = list_all isWhiteSpace t"

text \<open>
  A burst of edits: each edit (a new text or a new theme) is followed by the time that
  passes before the next event; between the edits, renders started earlier may resolve.
  \<open>rapid t\<close>: less than 500 ms pass from each edit to the next event that is an edit,
  \<open>t\<close> being the time since the last edit (\<open>None\<close> before the first);
  \<open>since t\<close> is that time at the end of the burst.
  \<open>changing c th\<close>: every edit changes the text or the theme that is current when it
  is made, starting from text \<open>c\<close> and theme \<open>th\<close>.
  \<open>last_code\<close> and \<open>last_theme\<close> are the text and theme submitted last.
\<close>

fun burst :: "(event \<times> nat) list \<Rightarrow> session \<Rightarrow> session" where
  "burst [] s = s"
| "burst ((e, d) # es) s = burst es (elapse d (step e s))"

fun rapid :: "nat option \<Rightarrow> (event \<times> nat) list \<Rightarrow> bool" where
  "rapid t [] = True"
| "rapid t ((SetCode x, d) # es) = (d < 500 \<and> rapid (Some d) es)"
| "rapid t ((SetMermaidTheme x, d) # es) = (d < 500 \<and> rapid (Some d) es)"
| "rapid (Some t) ((Settled i (Resolved svg h), d) # es) =
     (t + d < 500 \<and> rapid (Some (t + d)) es)"
| "rapid t (other # es) = False"

fun since :: "nat option \<Rightarrow> (event \<times> nat) list \<Rightarrow> nat option" where
  "since t [] = t"
| "since t ((SetCode x, d) # es) = since (Some d) es"
| "since t ((SetMermaidTheme x, d) # es) = since (Some d) es"
| "since (Some t) ((Settled i (Resolved svg h), d) # es) = since (Some (t + d)) es"
| "since t (other # es) = since t es"

text \<open>
  \<open>pending t\<close>: the timeout armed by an edit made \<open>t\<close> ms ago is still pending,
  for the current text.
\<close>

fun pending :: "nat option \<Rightarrow> session \<Rightarrow> bool" where
  "pending None s = True"
| "pending (Some t) s = (t < 500 \<and> timer s = Some (500 - t, code s, True))"

fun changing :: "jsstring \<Rightarrow> MermaidTheme \<Rightarrow> (event \<times> nat) list \<Rightarrow> bool" where
  "changing c th [] = True"
| "changing c th ((SetCode t, d) # es) = (t \<noteq> c \<and> changing t th es)"
| "changing c th ((SetMermaidTheme x, d) # es) = (x \<noteq> th \<and> changing c x es)"
| "changing c th ((Settled i (Resolved svg h), d) # es) = changing c th es"
| "changing c th (other # es) = False"

fun last_code :: "jsstring \<Rightarrow> (event \<times> nat) list \<Rightarrow> jsstring" where
  "last_code c [] = c"
| "last_code c ((SetCode t, d) # es) = last_code t es"
| "last_code c (other # es) = last_code c es"

fun last_theme :: "MermaidTheme \<Rightarrow> (event \<times> nat) list \<Rightarrow> MermaidTheme" where
  "last_theme th [] = th"
| "last_theme th ((SetMermaidTheme x, d) # es) = last_theme x es"
| "last_theme th (other # es) = last_theme th es"

text \<open>
  Two texts to run the pipeline on: \<^verbatim>\<open>"graph TD\nA-->B"\<close>, a diagram, and
  \<^verbatim>\<open>"graph TD\nA--"\<close>, which is incomplete.
\<close>

definition text_AB :: jsstring where
  "text_AB = js ''graph TD'' @ [10] @ js ''A-->B''"

definition text_incomplete :: jsstring where
  "text_incomplete = js ''graph TD'' @ [10] @ js ''A--''"

text \<open>The notification of the host that the fullscreen status has changed.\<close>

fun is_FullscreenChange :: "event \<Rightarrow> bool" where
  "is_FullscreenChange (FullscreenChange doc) = True"
| "is_FullscreenChange e = False"

text \<open>
  A stored string is a serialised sequence of saved diagrams when it is the JSON text of
  an array of objects that have a string \<^verbatim>\<open>name\<close> and a string \<^verbatim>\<open>code\<close>.
\<close>

fun is_string :: "jsvalue option \<Rightarrow> bool" where
  "is_string (Some (JStr t)) = True"
| "is_string v = False"

fun is_diagram :: "jsvalue \<Rightarrow> bool" where
  "is_diagram (JObj kvs) =
     (is_string (map_of kvs (js ''name'')) \<and> is_string (map_of kvs (js ''code'')))"
| "is_diagram v = False"

fun is_diagrams :: "jsvalue \<Rightarrow> bool" where
  "is_diagrams (JArr xs) = list_all is_diagram xs"
| "is_diagrams v = False"

fun serialised_diagrams :: "blob \<Rightarrow> bool" where
  "serialised_diagrams (Json v) = is_diagrams v"
| "serialised_diagrams b = False"

text \<open>
  What holds in every state a session can reach: the component is mounted, mermaid is
  initialised with the selected theme, a pending timeout closes over the current text,
  the zoom is a multiple of 10 between 50 and 200, and the awaited calls carry distinct
  ids below the counter.
\<close>

fun timer_ok :: "jsstring \<Rightarrow> timeout option \<Rightarrow> bool" where
  "timer_ok c None = True"
| "timer_ok c (Some (r, c', m)) = (c' = c \<and> m \<and> 0 < r \<and> r \<le> 500)"

definition session_inv :: "session \<Rightarrow> bool" where
  "session_inv s =
     (mounted s \<and> mermaid_theme s = Some (mermaidTheme s)
      \<and> timer_ok (code s) (timer s)
      \<and> 50 \<le> zoom s \<and> zoom s \<le> 200 \<and> 10 dvd zoom s
      \<and> list_all (\<lambda>call. fst call < idCounter s) (inflight s)
      \<and> distinct (map fst (inflight s)))"

section \<open>Properties\<close>

subsection \<open>What holds in every reachable state\<close>

lemma start_fields:
  "zoom (start store dark) = 100"
  "mounted (start store dark)"
  "error (start store dark) = []"
  "isFullscreen (start store dark) = False"
  "inflight (start store dark) = []"
  "idCounter (start store dark) = 0"
  "innerHTML (start store dark) = []"
  "svgStyled (start store dark) = False"
  "code (start store dark) = templates_flowchart"
  "timer (start store dark) = Some (500, templates_flowchart, True)"
  "mermaidTheme (start store dark) = (if dark then Dark else Default)"
  "mermaid_theme (start store dark) = Some (if dark then Dark else Default)"
  "localStorage (start store dark) = store"
  "editorWidth (start store dark) = Fin 50"
  "isResizing (start store dark) = False"
  by (simp_all add: start_def initial_def arm_def initialize_def load_saved_def theme_sync_def
      setMermaidTheme_def Let_def split: option.splits)

lemma session_inv_start: "session_inv (start store dark)"
  by (simp add: session_inv_def start_fields)

lemma inv_setCode: "session_inv s \<Longrightarrow> session_inv (setCode t s)"
  by (simp add: session_inv_def setCode_def arm_def)

lemma inv_setMermaidTheme: "session_inv s \<Longrightarrow> session_inv (setMermaidTheme th s)"
  by (simp add: session_inv_def setMermaidTheme_def arm_def initialize_def)

lemma inv_theme_sync: "session_inv s \<Longrightarrow> session_inv (theme_sync s)"
  by (simp add: theme_sync_def inv_setMermaidTheme)

lemma inv_setIsDark: "session_inv s \<Longrightarrow> session_inv (setIsDark b s)"
proof -
  assume inv: "session_inv s"
  then have "session_inv (s\<lparr>isDark := b\<rparr>)"
    by (simp add: session_inv_def)
  then have "session_inv (theme_sync (s\<lparr>isDark := b\<rparr>))"
    by (rule inv_theme_sync)
  with inv show ?thesis
    by (cases "b = isDark s") (simp_all add: setIsDark_def)
qed

lemma inv_renderDiagram:
  assumes "session_inv s"
  shows "session_inv (renderDiagram c m s)"
proof -
  have "list_all (\<lambda>call. fst call < Suc (idCounter s)) (inflight s)"
    using assms by (auto simp: session_inv_def list_all_iff)
  moreover have "idCounter s \<notin> fst ` set (inflight s)"
    using assms by (auto simp: session_inv_def list_all_iff)
  ultimately show ?thesis
    using assms by (simp add: session_inv_def renderDiagram_def setError_def)
qed

lemma inv_elapse: "session_inv s \<Longrightarrow> session_inv (elapse d s)"
proof (cases "timer s")
  case None
  assume "session_inv s"
  with None show ?thesis by (simp add: elapse_def)
next
  case (Some p)
  assume inv: "session_inv s"
  obtain r c m where p: "p = (r, c, m)" by (cases p)
  show ?thesis
  proof (cases "d < r")
    case True
    with inv Some p show ?thesis
      by (auto simp add: elapse_def session_inv_def)
  next
    case False
    have "session_inv (s\<lparr>timer := None\<rparr>)"
      using inv by (simp add: session_inv_def)
    then have "session_inv (renderDiagram c m (s\<lparr>timer := None\<rparr>))"
      by (rule inv_renderDiagram)
    with False Some p show ?thesis
      by (simp add: elapse_def)
  qed
qed

lemma inv_setError: "session_inv s \<Longrightarrow> session_inv (setError msg s)"
  by (simp add: session_inv_def setError_def)

lemma inv_settled:
  assumes "session_inv s"
  shows "session_inv (renderDiagram_settled i out s)"
proof (cases "inflight s")
  case Nil
  with assms show ?thesis by (simp add: renderDiagram_settled_def)
next
  case (Cons call calls)
  let ?s1 = "s\<lparr>inflight := calls\<rparr>"
  have s1: "session_inv ?s1"
    using assms Cons by (simp add: session_inv_def)
  then have "session_inv (?s1\<lparr>innerHTML := svg, svgStyled := h\<rparr>)" for svg h
    by (simp add: session_inv_def)
  with s1 assms Cons show ?thesis
    by (simp add: renderDiagram_settled_def Let_def inv_setError split: outcome.splits)
qed

lemma inv_zoom: "session_inv s \<Longrightarrow> session_inv (handleZoomIn s) \<and> session_inv (handleZoomOut s)"
  by (simp add: session_inv_def handleZoomIn_def handleZoomOut_def min_def max_def)

lemma inv_other:
  "session_inv s \<Longrightarrow> session_inv (fst (toggleFullscreen has s))"
  "session_inv s \<Longrightarrow> session_inv (handleFullscreenChange doc s)"
  "session_inv s \<Longrightarrow> session_inv (handleMouseDown s)"
  "session_inv s \<Longrightarrow> session_inv (handleMouseUp s)"
  "session_inv s \<Longrightarrow> session_inv (handleMouseMove x l w s)"
  by (simp_all add: session_inv_def toggleFullscreen_def handleFullscreenChange_def
      handleMouseDown_def handleMouseUp_def handleMouseMove_def)

lemma inv_storage:
  "session_inv s \<Longrightarrow> session_inv (s\<lparr>savedDiagrams := v\<rparr>)"
  "session_inv s \<Longrightarrow> session_inv (s\<lparr>savedDiagrams := v, localStorage := b\<rparr>)"
  by (simp_all add: session_inv_def)

lemma inv_saveDiagram: "session_inv s \<Longrightarrow> session_inv (state_of (saveDiagram answer w s))"
  unfolding saveDiagram_def Let_def
  by (simp add: inv_storage split: option.splits)

lemma inv_deleteDiagram: "session_inv s \<Longrightarrow> session_inv (state_of (deleteDiagram i ok w s))"
  unfolding deleteDiagram_def Let_def
  by (simp add: inv_storage split: jsvalue.splits)

lemma session_inv_step: "session_inv s \<Longrightarrow> session_inv (step e s)"
  by (cases e)
    (simp_all add: inv_setCode inv_setMermaidTheme inv_setIsDark inv_elapse inv_settled inv_zoom
      inv_other inv_saveDiagram inv_deleteDiagram)

lemma session_inv_run: "session_inv s \<Longrightarrow> session_inv (run es s)"
  by (induction es arbitrary: s) (simp_all add: session_inv_step)

subsection \<open>Zoom\<close>

lemma zoomOut_repeated: "zoom s = 50 \<Longrightarrow> zoom ((handleZoomOut ^^ n) s) = 50"
  by (induction n) (simp_all add: handleZoomOut_def)

lemma zoomIn_repeated: "zoom s = 200 \<Longrightarrow> zoom ((handleZoomIn ^^ n) s) = 200"
  by (induction n) (simp_all add: handleZoomIn_def)

text \<open>
  In every state a session reaches the zoom is one of 50, 60, ..., 200, so the
  hypotheses of the theorem below hold there.
\<close>

lemma zoom_reachable:
  "50 \<le> zoom (run es (start store dark)) \<and> zoom (run es (start store dark)) \<le> 200
   \<and> 10 dvd zoom (run es (start store dark))"
  using session_inv_run[OF session_inv_start, of es store dark]
  by (simp add: session_inv_def)

text \<open>
  C7. For a zoom between 50 and 200, zooming in gives \<open>min (z + 10) 200\<close> and zooming
  out gives \<open>max (z - 10) 50\<close>. Zooming out any number of times from 50 stays at 50,
  zooming in any number of times from 200 stays at 200, and a step that has room (and,
  from a multiple of 10, every step that does not start at its bound) changes the zoom
  by exactly 10.
\<close>

theorem zoom_clamped_steps:
  assumes "50 \<le> zoom s" and "zoom s \<le> 200"
  shows "zoom (handleZoomIn s) = min (zoom s + 10) 200
       \<and> zoom (handleZoomOut s) = max (zoom s - 10) 50
       \<and> (zoom s = 50 \<longrightarrow> zoom ((handleZoomOut ^^ n) s) = 50)
       \<and> (zoom s = 200 \<longrightarrow> zoom ((handleZoomIn ^^ n) s) = 200)
       \<and> (zoom s + 10 \<le> 200 \<longrightarrow> zoom (handleZoomIn s) = zoom s + 10)
       \<and> (50 \<le> zoom s - 10 \<longrightarrow> zoom (handleZoomOut s) = zoom s - 10)
       \<and> (10 dvd zoom s \<and> zoom s \<noteq> 200 \<longrightarrow> zoom (handleZoomIn s) = zoom s + 10)
       \<and> (10 dvd zoom s \<and> zoom s \<noteq> 50 \<longrightarrow> zoom (handleZoomOut s) = zoom s - 10)"
proof -
  have "zoom (handleZoomIn s) = min (zoom s + 10) 200"
    and "zoom (handleZoomOut s) = max (zoom s - 10) 50"
    by (simp_all add: handleZoomIn_def handleZoomOut_def)
  moreover have "zoom s + 10 \<le> 200" if "10 dvd zoom s" and "zoom s \<noteq> 200"
    using that assms by presburger
  moreover have "50 \<le> zoom s - 10" if "10 dvd zoom s" and "zoom s \<noteq> 50"
    using that assms by presburger
  ultimately show ?thesis
    using zoomOut_repeated[of s n] zoomIn_repeated[of s n] by simp
qed

theorem zoom_clamped_steps_witness:
  "50 \<le> zoom (start None False) \<and> zoom (start None False) \<le> 200
   \<and> zoom (handleZoomIn (start None False)) = 110
   \<and> zoom (handleZoomOut (start None False)) = 90
   \<and> zoom ((handleZoomOut ^^ 3) ((start None False)\<lparr>zoom := 50\<rparr>)) = 50
   \<and> zoom ((handleZoomIn ^^ 3) ((start None False)\<lparr>zoom := 200\<rparr>)) = 200"
  using zoom_clamped_steps[of "start None False" 3]
    zoom_clamped_steps[of "(start None False)\<lparr>zoom := 50\<rparr>" 3]
    zoom_clamped_steps[of "(start None False)\<lparr>zoom := 200\<rparr>" 3]
  by (simp add: start_fields)

subsection \<open>Fullscreen\<close>

lemma isFullscreen_step:
  "\<not> is_FullscreenChange e \<Longrightarrow> isFullscreen (step e s) = isFullscreen s"
proof (cases e)
  case (SetIsDark b)
  then show ?thesis
    by (simp add: setIsDark_def theme_sync_def setMermaidTheme_def arm_def initialize_def)
next
  case (Elapse d)
  then show ?thesis
    by (simp add: elapse_def renderDiagram_def setError_def split: option.splits)
next
  case (Settled i out)
  then show ?thesis
    by (simp add: renderDiagram_settled_def setError_def Let_def
        split: outcome.splits list.splits)
next
  case (SaveDiagram answer w)
  then show ?thesis
    by (simp add: saveDiagram_def Let_def split: option.splits)
next
  case (DeleteDiagram i ok w)
  then show ?thesis
    by (simp add: deleteDiagram_def Let_def split: jsvalue.splits)
qed (simp_all add: setCode_def setMermaidTheme_def arm_def initialize_def handleZoomIn_def
    handleZoomOut_def toggleFullscreen_def handleMouseDown_def handleMouseUp_def
    handleMouseMove_def)

lemma isFullscreen_run:
  "list_all (\<lambda>e. \<not> is_FullscreenChange e) es \<Longrightarrow> isFullscreen (run es s) = isFullscreen s"
  by (induction es arbitrary: s) (simp_all add: isFullscreen_step)

text \<open>
  C9. A request to enter or leave fullscreen changes no state at all, so the fullscreen
  flag is what it was; no event other than the host's fullscreen-change notification
  changes the flag, however many of them are handled; the notification sets the flag to
  what the document reports.
\<close>

theorem fullscreen_flag_set_by_notification_only:
  "fst (toggleFullscreen has s) = s
   \<and> (list_all (\<lambda>e. \<not> is_FullscreenChange e) es \<longrightarrow>
        isFullscreen (run (ToggleFullscreen has # es) s) = isFullscreen s)
   \<and> isFullscreen (step (FullscreenChange doc) s) =
        (fullscreenElement doc \<or> webkitFullscreenElement doc
         \<or> mozFullScreenElement doc \<or> msFullscreenElement doc)"
  using isFullscreen_run[of "ToggleFullscreen has # es" s]
  by (simp add: toggleFullscreen_def handleFullscreenChange_def)

theorem fullscreen_flag_set_by_notification_only_witness:
  "list_all (\<lambda>e. \<not> is_FullscreenChange e) [ZoomIn, Elapse 500, MouseDown]
   \<and> fst (toggleFullscreen (\<lambda>m. True) (start None False)) = start None False
   \<and> snd (toggleFullscreen (\<lambda>m. True) (start None False)) = Some requestFullscreen
   \<and> isFullscreen (run (ToggleFullscreen (\<lambda>m. True) # [ZoomIn, Elapse 500, MouseDown])
        (start None False)) = False
   \<and> isFullscreen (step (FullscreenChange
        \<lparr>fullscreenElement = True, webkitFullscreenElement = False,
         mozFullScreenElement = False, msFullscreenElement = False\<rparr>) (start None False))"
  using fullscreen_flag_set_by_notification_only[of "\<lambda>m. True" "start None False"
      "[ZoomIn, Elapse 500, MouseDown]"
      "\<lparr>fullscreenElement = True, webkitFullscreenElement = False,
         mozFullScreenElement = False, msFullscreenElement = False\<rparr>"]
  by (simp add: start_fields toggleFullscreen_def)

subsection \<open>Saving without a name\<close>

text \<open>
  C10. When the name prompt is cancelled or answered with the empty string,
  \<^verbatim>\<open>saveDiagram\<close> returns before it has set anything: the whole state, with it
  the saved diagrams and the storage slot, is as before.
\<close>

theorem saveDiagram_without_name_is_noop:
  assumes "answer = None \<or> answer = Some []"
  shows "saveDiagram answer w s = Returned s
       \<and> savedDiagrams (step (SaveDiagram answer w) s) = savedDiagrams s
       \<and> localStorage (step (SaveDiagram answer w) s) = localStorage s
       \<and> step (SaveDiagram answer w) s = s"
  using assms by (auto simp: saveDiagram_def)

theorem saveDiagram_without_name_is_noop_witness:
  "((None :: jsstring option) = None \<or> (None :: jsstring option) = Some [])
   \<and> saveDiagram None True
         (start (Some (Json (JArr [diagram (js ''A'') (js ''graph TD'')]))) False)
       = Returned (start (Some (Json (JArr [diagram (js ''A'') (js ''graph TD'')]))) False)
   \<and> saveDiagram (Some []) True (start None False) = Returned (start None False)
   \<and> localStorage (step (SaveDiagram (Some []) True) (start None False)) = None"
  using saveDiagram_without_name_is_noop[of None True
      "start (Some (Json (JArr [diagram (js ''A'') (js ''graph TD'')]))) False"]
    saveDiagram_without_name_is_noop[of "Some []" True "start None False"]
  by (simp add: start_fields)

subsection \<open>Blank text\<close>

lemma trim_empty_iff: "trim t = [] \<longleftrightarrow> blank t"
proof
  assume "trim t = []"
  then have all: "\<forall>c \<in> set (dropWhile isWhiteSpace t). isWhiteSpace c"
    by (simp add: trim_def dropWhile_eq_Nil_conv)
  have "dropWhile isWhiteSpace t = []"
  proof (rule ccontr)
    assume ne: "dropWhile isWhiteSpace t \<noteq> []"
    then have "\<not> isWhiteSpace (hd (dropWhile isWhiteSpace t))"
      by (rule hd_dropWhile)
    moreover have "hd (dropWhile isWhiteSpace t) \<in> set (dropWhile isWhiteSpace t)"
      using ne by simp
    ultimately show False
      using all by blast
  qed
  then show "blank t"
    by (simp add: blank_def dropWhile_eq_Nil_conv list_all_iff)
next
  assume "blank t"
  then have d: "dropWhile isWhiteSpace t = []"
    by (simp add: blank_def dropWhile_eq_Nil_conv list_all_iff)
  show "trim t = []"
    unfolding trim_def d by simp
qed

text \<open>
  C4. When the text the pending timeout closed over is the current text and is empty or
  white space only, the timeout firing leaves everything as it was but for the timeout
  being gone: no call of \<^verbatim>\<open>mermaid.render\<close> is made, no id is used up, and the error
  and the rendered diagram, hence the preview, are unchanged.
\<close>

theorem blank_text_is_not_rendered:
  assumes "blank (code s)" and "timer s = Some (r, code s, m)" and "r \<le> d"
  shows "elapse d s = s\<lparr>timer := None\<rparr>
       \<and> inflight (elapse d s) = inflight s
       \<and> idCounter (elapse d s) = idCounter s
       \<and> error (elapse d s) = error s
       \<and> innerHTML (elapse d s) = innerHTML s
       \<and> preview (elapse d s) = preview s"
proof -
  have "trim (code s) = []"
    using assms(1) by (simp add: trim_empty_iff)
  then have "elapse d s = s\<lparr>timer := None\<rparr>"
    using assms(2,3) by (simp add: elapse_def renderDiagram_def)
  then show ?thesis
    by (simp add: preview_def)
qed

theorem blank_text_is_not_rendered_witness:
  "blank (code (setCode [32, 9, 10] (start None False)))
   \<and> timer (setCode [32, 9, 10] (start None False)) = Some (500, [32, 9, 10], True)
   \<and> (500 :: nat) \<le> 500
   \<and> inflight (elapse 500 (setCode [32, 9, 10] (start None False))) = []
   \<and> idCounter (elapse 500 (setCode [32, 9, 10] (start None False))) = 0
   \<and> preview (elapse 500 (setCode [32, 9, 10] (start None False))) = ShowDiagram ([], False)"
proof -
  have ne: "[32, 9, 10] \<noteq> templates_flowchart"
    by (simp add: templates_flowchart_def js_def)
  have c: "code (setCode [32, 9, 10] (start None False)) = [32, 9, 10]"
    and t: "timer (setCode [32, 9, 10] (start None False)) = Some (500, [32, 9, 10], True)"
    using ne by (simp_all add: setCode_def arm_def start_fields)
  have b: "blank [32, 9, 10]"
    by (simp add: blank_def isWhiteSpace_def)
  have rest: "inflight (setCode [32, 9, 10] (start None False)) = []"
    "idCounter (setCode [32, 9, 10] (start None False)) = 0"
    "error (setCode [32, 9, 10] (start None False)) = []"
    "innerHTML (setCode [32, 9, 10] (start None False)) = []"
    "svgStyled (setCode [32, 9, 10] (start None False)) = False"
    using ne by (simp_all add: setCode_def arm_def start_fields)
  show ?thesis
    using blank_text_is_not_rendered[of "setCode [32, 9, 10] (start None False)" 500 True 500]
      b c t rest by (simp add: preview_def)
qed

subsection \<open>Saved diagrams and the storage slot\<close>

lemma filter_index_snoc:
  "filter_index i (xs @ [x]) = filter_index i xs @ (if i = length xs then [] else [x])"
  by (simp add: filter_index_def)

lemma filter_index_take_drop: "filter_index i xs = take i xs @ drop (Suc i) xs"
proof (induction xs rule: rev_induct)
  case Nil
  show ?case by (simp add: filter_index_def)
next
  case (snoc x xs)
  show ?case
  proof (cases "i < length xs")
    case True
    with snoc show ?thesis by (simp add: filter_index_snoc)
  next
    case False
    with snoc show ?thesis by (auto simp: filter_index_snoc)
  qed
qed

lemma savedDiagrams_start:
  "savedDiagrams (start store dark) = (case store of Some (Json v) \<Rightarrow> v | _ \<Rightarrow> JArr [])"
  by (simp add: start_def initial_def arm_def initialize_def load_saved_def theme_sync_def
      setMermaidTheme_def Let_def split: option.splits blob.splits)

text \<open>
  A sequence of objects with a string \<^verbatim>\<open>name\<close> and a string \<^verbatim>\<open>code\<close> holds no
  number, so \<^verbatim>\<open>JSON.stringify\<close> writes it as it is.
\<close>

lemma serialisable_diagrams:
  "serialisable (JArr (map (\<lambda>(n, c). diagram n c) ds)) = JArr (map (\<lambda>(n, c). diagram n c) ds)"
  by (induction ds) (auto simp: diagram_def)

lemma serialisable_elements:
  assumes "serialisable (JArr xs) = JArr xs" and "set ys \<subseteq> set xs"
  shows "serialisable (JArr ys) = JArr ys"
proof -
  from assms(1) have "map serialisable xs = map id xs" by simp
  then have "\<forall>x \<in> set xs. serialisable x = id x"
    by (simp only: map_eq_conv)
  with assms(2) have "map serialisable ys = ys"
    by (simp add: map_idI subset_iff)
  then show ?thesis by simp
qed

text \<open>
  C5, as stated, fails when the store refuses the write: \<^verbatim>\<open>setSavedDiagrams\<close> has run
  when \<^verbatim>\<open>localStorage.setItem\<close> throws, so the pair is in the sequence in memory
  and not in the store, and a session started over the store does not have it.
\<close>

theorem refused_write_counterexample:
  "savedDiagrams (step (SaveDiagram (Some (js ''A'')) False) (start None False))
     = JArr [JObj [(js ''name'', JStr (js ''A'')), (js ''code'', JStr templates_flowchart)]]
   \<and> localStorage (step (SaveDiagram (Some (js ''A'')) False) (start None False)) = None
   \<and> savedDiagrams
        (start (localStorage (step (SaveDiagram (Some (js ''A'')) False) (start None False)))
           False)
     = JArr []"
  by (simp add: saveDiagram_def savedDiagrams_start start_fields Let_def diagram_def js_def)

text \<open>
  C5, amended. From a sequence \<open>xs\<close> of saved diagrams, saving under a non-empty name
  appends, in memory, exactly the object with that name and the current text, and
  deleting (once confirmed) removes the element at the index. When the store accepts
  the write the slot is overwritten at once with the serialisation of the complete new
  sequence, so that parsing the slot, and starting a new session over it, yield exactly
  the sequence in memory; when the write is refused the handler is left by the
  exception with the sequence in memory already updated and the slot as it was.
\<close>

theorem save_and_delete_write_through:
  assumes "savedDiagrams s = JArr xs" and "serialisable (JArr xs) = JArr xs"
  shows "(n \<noteq> [] \<longrightarrow>
           (let s' = step (SaveDiagram (Some n) w) s;
                new = JArr (xs @ [JObj [(js ''name'', JStr n), (js ''code'', JStr (code s))]])
            in savedDiagrams s' = new
              \<and> saveDiagram (Some n) w s = (if w then Returned s' else Thrown s')
              \<and> localStorage s' = (if w then Some (JSON_stringify new) else localStorage s)
              \<and> (w \<longrightarrow> Option.bind (localStorage s') JSON_parse = Some new
                       \<and> savedDiagrams (start (localStorage s') dark) = new)))
       \<and> (let s' = step (DeleteDiagram i True w) s;
                new = JArr (take i xs @ drop (Suc i) xs)
            in savedDiagrams s' = new
              \<and> deleteDiagram i True w s = (if w then Returned s' else Thrown s')
              \<and> localStorage s' = (if w then Some (JSON_stringify new) else localStorage s)
              \<and> (w \<longrightarrow> Option.bind (localStorage s') JSON_parse = Some new
                       \<and> savedDiagrams (start (localStorage s') dark) = new))"
proof -
  let ?obj = "JObj [(js ''name'', JStr n), (js ''code'', JStr (code s))]"
  have "serialisable ?obj = ?obj" by simp
  with assms(2) have a: "serialisable (JArr (xs @ [?obj])) = JArr (xs @ [?obj])"
    by simp
  have "set (take i xs @ drop (Suc i) xs) \<subseteq> set xs"
    using set_take_subset[of i xs] set_drop_subset[of "Suc i" xs] by auto
  with assms(2) have b: "serialisable (JArr (take i xs @ drop (Suc i) xs))
      = JArr (take i xs @ drop (Suc i) xs)"
    by (rule serialisable_elements)
  from a have a': "map serialisable xs @ [?obj] = xs @ [?obj]" by simp
  from b have b': "map serialisable (take i xs) @ map serialisable (drop (Suc i) xs)
      = take i xs @ drop (Suc i) xs" by simp
  show ?thesis
    using assms(1) a' b'
    by (simp add: saveDiagram_def deleteDiagram_def Let_def JSON_stringify_def diagram_def
        savedDiagrams_start filter_index_take_drop)
qed

theorem save_and_delete_write_through_witness:
  "savedDiagrams (start (Some (Json (JArr [diagram (js ''B'') text_AB]))) False)
     = JArr [diagram (js ''B'') text_AB]
   \<and> serialisable (JArr [diagram (js ''B'') text_AB]) = JArr [diagram (js ''B'') text_AB]
   \<and> js ''A'' \<noteq> []
   \<and> savedDiagrams (step (SaveDiagram (Some (js ''A'')) True)
        (start (Some (Json (JArr [diagram (js ''B'') text_AB]))) False))
       = JArr [JObj [(js ''name'', JStr (js ''B'')), (js ''code'', JStr text_AB)],
               JObj [(js ''name'', JStr (js ''A'')), (js ''code'', JStr templates_flowchart)]]
   \<and> localStorage (step (SaveDiagram (Some (js ''A'')) True)
        (start (Some (Json (JArr [diagram (js ''B'') text_AB]))) False))
       = Some (Json (JArr
           [JObj [(js ''name'', JStr (js ''B'')), (js ''code'', JStr text_AB)],
            JObj [(js ''name'', JStr (js ''A'')), (js ''code'', JStr templates_flowchart)]]))
   \<and> savedDiagrams (step (DeleteDiagram 0 True True)
        (start (Some (Json (JArr [diagram (js ''B'') text_AB]))) False)) = JArr []
   \<and> localStorage (step (DeleteDiagram 0 True True)
        (start (Some (Json (JArr [diagram (js ''B'') text_AB]))) False)) = Some (Json (JArr []))"
  using save_and_delete_write_through[of
      "start (Some (Json (JArr [diagram (js ''B'') text_AB]))) False"
      "[diagram (js ''B'') text_AB]" "js ''A''" True False 0]
  by (simp add: savedDiagrams_start start_fields js_def JSON_stringify_def Let_def diagram_def)

subsection \<open>Loading the storage slot\<close>

text \<open>
  When the slot is missing, holds the empty string or holds a string on which
  \<^verbatim>\<open>JSON.parse\<close> throws, loading leaves \<^verbatim>\<open>savedDiagrams\<close> at its initial
  value, the empty sequence, and changes nothing else (the \<^verbatim>\<open>SyntaxError\<close> is
  caught); the render that follows shows no saved diagram and does not throw.
\<close>

lemma load_absent_or_unparseable:
  assumes "store = None \<or> store = Some Empty \<or> store = Some Corrupt"
  shows "savedDiagrams (start store dark) = JArr []
       \<and> load_saved (s\<lparr>localStorage := store\<rparr>) = s\<lparr>localStorage := store\<rparr>
       \<and> mount N store dark = Some (start store dark)"
  using assms by (auto simp: savedDiagrams_start load_saved_def mount_def saved_section_def)

text \<open>A stored sequence of saved diagrams is loaded as it is and rendered.\<close>

lemma load_diagrams:
  "mount N (Some (Json (JArr (map (\<lambda>(n, c). diagram n c) ds)))) dark
     = Some (start (Some (Json (JArr (map (\<lambda>(n, c). diagram n c) ds)))) dark)"
proof -
  have "saved_buttons (map (\<lambda>(n, c). diagram n c) ds) = Some (map (\<lambda>(n, c). Some (JStr n)) ds)"
    by (induction ds) (auto simp: diagram_def js_def)
  then show ?thesis
    by (cases ds) (simp_all add: mount_def saved_section_def savedDiagrams_start)
qed

text \<open>
  C6 does not hold of the code for a stored string that is a JSON text but not one of
  a sequence of saved diagrams. \<^verbatim>\<open>JSON.parse\<close> does not throw on it, so the
  \<^verbatim>\<open>try\<close> of lines 194 to 198 lets it through and it becomes \<^verbatim>\<open>savedDiagrams\<close>
  unchecked. For the texts \<^verbatim>\<open>null\<close>, \<^verbatim>\<open>"ab"\<close> and \<^verbatim>\<open>[null]\<close> the render that
  follows throws (at \<^verbatim>\<open>savedDiagrams.length\<close>, at \<^verbatim>\<open>savedDiagrams.map\<close> and at
  \<^verbatim>\<open>diagram.name\<close>), and the component is removed: the session has crashed, where
  the claim has an empty sequence and no crash.
\<close>

theorem stored_non_sequence_crashes_render:
  "\<not> serialised_diagrams (Json JNull)
   \<and> \<not> serialised_diagrams (Json (JStr (js ''ab'')))
   \<and> \<not> serialised_diagrams (Json (JArr [JNull]))
   \<and> savedDiagrams (start (Some (Json JNull)) dark) = JNull
   \<and> mount N (Some (Json JNull)) dark = None
   \<and> mount N (Some (Json (JStr (js ''ab'')))) dark = None
   \<and> mount N (Some (Json (JArr [JNull]))) dark = None"
  by (simp add: savedDiagrams_start mount_def saved_section_def js_def)

theorem stored_non_sequence_crashes_render_witness:
  "savedDiagrams (start (Some (Json JNull)) False) = JNull
   \<and> savedDiagrams (start (Some (Json JNull)) False) \<noteq> JArr []
   \<and> mount (\<lambda>v. NaN) (Some (Json JNull)) False = None
   \<and> mount (\<lambda>v. NaN) (Some (Json (JArr [JNull]))) False = None
   \<and> mount (\<lambda>v. NaN) None False = Some (start None False)"
  using stored_non_sequence_crashes_render[of False "\<lambda>v. NaN"]
    load_absent_or_unparseable[of None False "start None False" "\<lambda>v. NaN"]
  by simp

subsection \<open>The splitter\<close>

text \<open>
  Over a container of non-zero width the stored width is the percentage clamped to
  the range from 20 to 80, and so is the result for a pointer beside a container of
  width zero.
\<close>

lemma constrainedWidth_finite:
  "width \<noteq> 0 \<Longrightarrow>
   constrainedWidth clientX left width
     = Fin (min (max ((clientX - left) / width * 100) 20) 80)"
  by (simp add: constrainedWidth_def)

lemma constrainedWidth_in_range:
  assumes "width \<noteq> 0 \<or> clientX \<noteq> left"
  shows "\<exists>w. constrainedWidth clientX left width = Fin w \<and> 20 \<le> w \<and> w \<le> 80"
proof (cases "width = 0")
  case False
  then show ?thesis
    by (simp add: constrainedWidth_finite)
next
  case True
  with assms have "clientX - left \<noteq> 0" by simp
  with True show ?thesis
    by (simp add: constrainedWidth_def)
qed

lemma constrainedWidth_examples:
  "constrainedWidth 50 0 1000 = Fin 20"
  "constrainedWidth 950 0 1000 = Fin 80"
  "constrainedWidth 400 100 600 = Fin 50"
  by (simp_all add: constrainedWidth_def)

lemma handleMouseMove_resizing:
  "isResizing s \<Longrightarrow> mounted s \<Longrightarrow>
   editorWidth (handleMouseMove clientX left width s) = constrainedWidth clientX left width"
  by (simp add: handleMouseMove_def)

text \<open>
  C8 does not hold of the code for a container of width zero with the pointer on its
  left edge: \<open>0 / 0\<close> is NaN, \<^verbatim>\<open>Math.max\<close> and \<^verbatim>\<open>Math.min\<close> pass NaN on, and
  NaN is stored, which is not in the range from 20 to 80.
\<close>

theorem editorWidth_NaN_on_empty_container:
  "isResizing (handleMouseDown (start None False))
   \<and> editorWidth (handleMouseMove 0 0 0 (handleMouseDown (start None False))) = NaN"
  by (simp add: handleMouseMove_def handleMouseDown_def constrainedWidth_def start_fields)

theorem editorWidth_NaN_on_empty_container_witness:
  "mounted (handleMouseDown (start None False))
   \<and> isResizing (handleMouseDown (start None False))
   \<and> editorWidth (handleMouseMove 0 0 0 (handleMouseDown (start None False))) = NaN
   \<and> editorWidth (handleMouseMove 0 0 0 (handleMouseDown (start None False))) \<noteq> Fin 20"
  using editorWidth_NaN_on_empty_container
  by (simp add: handleMouseDown_def start_fields)

subsection \<open>The render pipeline, step by step\<close>

lemma setCode_new:
  "t \<noteq> code s \<Longrightarrow> setCode t s = s\<lparr>code := t, timer := Some (500, t, mounted s)\<rparr>"
  by (simp add: setCode_def arm_def)

lemma setMermaidTheme_new:
  "th \<noteq> mermaidTheme s \<Longrightarrow> mounted s \<Longrightarrow>
   setMermaidTheme th s =
     s\<lparr>mermaidTheme := th, mermaid_theme := Some th, timer := Some (500, code s, True)\<rparr>"
  by (simp add: setMermaidTheme_def arm_def initialize_def)

lemma elapse_early:
  "timer s = Some (r, c, m) \<Longrightarrow> d < r \<Longrightarrow> elapse d s = s\<lparr>timer := Some (r - d, c, m)\<rparr>"
  by (simp add: elapse_def)

lemma elapse_fires:
  "timer s = Some (r, c, m) \<Longrightarrow> r \<le> d \<Longrightarrow> elapse d s = renderDiagram c m (s\<lparr>timer := None\<rparr>)"
  by (simp add: elapse_def)

lemma elapse_idle: "timer s = None \<Longrightarrow> elapse d s = s"
  by (simp add: elapse_def)

lemma renderDiagram_calls:
  "mounted s \<Longrightarrow> error s = [] \<Longrightarrow> \<not> blank c \<Longrightarrow>
   renderDiagram c True s =
     s\<lparr>idCounter := idCounter s + 1,
       inflight := inflight s @ [(idCounter s, c, mermaid_theme s)]\<rparr>"
  by (simp add: renderDiagram_def diagramRef_current_def setError_def trim_empty_iff)

lemma renderDiagram_returns:
  "\<not> mounted s \<or> error s \<noteq> [] \<or> blank c \<or> \<not> m \<Longrightarrow> renderDiagram c m s = s"
  by (auto simp: renderDiagram_def diagramRef_current_def trim_empty_iff)

lemma catch_message_nonempty: "catch_message m \<noteq> []"
  by (simp add: catch_message_def js_def split: option.splits)

lemma settled_resolved:
  "inflight s = (i, c, th) # calls \<Longrightarrow> mounted s \<Longrightarrow> error s = [] \<Longrightarrow>
   renderDiagram_settled i (Resolved svg h) s
     = s\<lparr>inflight := calls, innerHTML := svg, svgStyled := h\<rparr>"
  by (simp add: renderDiagram_settled_def diagramRef_current_def)

lemma settled_rejected:
  "inflight s = (i, c, th) # calls \<Longrightarrow>
   renderDiagram_settled i (Rejected m) s = s\<lparr>inflight := calls, error := catch_message m\<rparr>"
  by (simp add: renderDiagram_settled_def setError_def)

lemma settled_resolved_detached:
  "inflight s = (i, c, th) # calls \<Longrightarrow> error s \<noteq> [] \<Longrightarrow>
   renderDiagram_settled i (Resolved svg h) s
     = s\<lparr>inflight := calls, error := null_innerHTML_message\<rparr>"
  by (simp add: renderDiagram_settled_def setError_def diagramRef_current_def catch_message_def
      null_innerHTML_message_def js_def)

lemma settled_other:
  "inflight s = [] \<or> fst (hd (inflight s)) \<noteq> i \<Longrightarrow> renderDiagram_settled i out s = s"
  by (cases "inflight s") (auto simp: renderDiagram_settled_def)

lemma not_blank_Cons: "\<not> isWhiteSpace c \<Longrightarrow> \<not> blank (c # cs)"
  by (simp add: blank_def)

lemma sample_texts:
  "\<not> blank text_AB" "\<not> blank text_incomplete" "\<not> blank templates_flowchart"
  "text_AB \<noteq> templates_flowchart" "text_incomplete \<noteq> text_AB" "text_AB \<noteq> text_incomplete"
  by (simp_all add: text_AB_def text_incomplete_def templates_flowchart_def js_def
      blank_def isWhiteSpace_def)

subsection \<open>An error, once shown, stays\<close>

text \<open>
  While an error is shown the diagram \<^verbatim>\<open>div\<close> is off the page and
  \<^verbatim>\<open>diagramRef.current\<close> is \<^verbatim>\<open>null\<close>, so \<^verbatim>\<open>renderDiagram\<close> returns at its
  first line: \<^verbatim>\<open>setError('')\<close> is never reached and no render is started. Whatever
  happens next, an error remains shown and the id counter stands still.
\<close>

lemma error_permanent_step:
  assumes "error s \<noteq> []"
  shows "error (step e s) \<noteq> [] \<and> idCounter (step e s) = idCounter s"
proof (cases e)
  case (SetIsDark b)
  with assms show ?thesis
    by (simp add: setIsDark_def theme_sync_def setMermaidTheme_def arm_def initialize_def)
next
  case (Elapse d)
  with assms show ?thesis
    by (simp add: elapse_def renderDiagram_returns split: option.splits)
next
  case (Settled i out)
  with assms show ?thesis
    by (simp add: renderDiagram_settled_def setError_def Let_def diagramRef_current_def
        catch_message_nonempty split: outcome.splits list.splits)
next
  case (SaveDiagram answer w)
  with assms show ?thesis
    by (simp add: saveDiagram_def Let_def split: option.splits)
next
  case (DeleteDiagram i ok w)
  with assms show ?thesis
    by (simp add: deleteDiagram_def Let_def split: jsvalue.splits)
qed (use assms in \<open>simp_all add: setCode_def setMermaidTheme_def arm_def initialize_def
    handleZoomIn_def handleZoomOut_def toggleFullscreen_def handleFullscreenChange_def
    handleMouseDown_def handleMouseUp_def handleMouseMove_def\<close>)

lemma error_permanent:
  "error s \<noteq> [] \<Longrightarrow> error (run es s) \<noteq> [] \<and> idCounter (run es s) = idCounter s"
proof (induction es arbitrary: s)
  case Nil
  then show ?case by simp
next
  case (Cons e es)
  from Cons.prems have "error (step e s) \<noteq> []" and "idCounter (step e s) = idCounter s"
    by (simp_all add: error_permanent_step)
  with Cons.IH[of "step e s"] show ?case by simp
qed

text \<open>
  C3 does not hold of the code. The first text renders; the incomplete text is rejected
  and its error is shown; the first text is entered again and the debounce passes: no
  render is started (the counter stays at 3, nothing is awaited) and the error of the
  incomplete text is still what the preview shows.
\<close>

theorem error_is_not_replaced_by_valid_text:
  "preview (run [Elapse 500, Settled 0 (Resolved (js ''<svg>0</svg>'') True),
                 SetCode text_AB, Elapse 500, Settled 1 (Resolved (js ''<svg>AB</svg>'') True)]
             (start None False))
     = ShowDiagram (js ''<svg>AB</svg>'', True)
   \<and> preview (run [Elapse 500, Settled 0 (Resolved (js ''<svg>0</svg>'') True),
                 SetCode text_AB, Elapse 500, Settled 1 (Resolved (js ''<svg>AB</svg>'') True),
                 SetCode text_incomplete, Elapse 500,
                 Settled 2 (Rejected (Some (js ''Parse error on line 2'')))]
             (start None False))
     = ShowError (js ''Parse error on line 2'') (js ''<svg>AB</svg>'', True)
   \<and> preview (run [Elapse 500, Settled 0 (Resolved (js ''<svg>0</svg>'') True),
                 SetCode text_AB, Elapse 500, Settled 1 (Resolved (js ''<svg>AB</svg>'') True),
                 SetCode text_incomplete, Elapse 500,
                 Settled 2 (Rejected (Some (js ''Parse error on line 2''))),
                 SetCode text_AB, Elapse 500]
             (start None False))
     = ShowError (js ''Parse error on line 2'') (js ''<svg>AB</svg>'', True)
   \<and> inflight (run [Elapse 500, Settled 0 (Resolved (js ''<svg>0</svg>'') True),
                 SetCode text_AB, Elapse 500, Settled 1 (Resolved (js ''<svg>AB</svg>'') True),
                 SetCode text_incomplete, Elapse 500,
                 Settled 2 (Rejected (Some (js ''Parse error on line 2''))),
                 SetCode text_AB, Elapse 500]
             (start None False))
     = []
   \<and> idCounter (run [Elapse 500, Settled 0 (Resolved (js ''<svg>0</svg>'') True),
                 SetCode text_AB, Elapse 500, Settled 1 (Resolved (js ''<svg>AB</svg>'') True),
                 SetCode text_incomplete, Elapse 500,
                 Settled 2 (Rejected (Some (js ''Parse error on line 2''))),
                 SetCode text_AB, Elapse 500]
             (start None False))
     = 3"
  by (simp add: start_def initial_def arm_def initialize_def load_saved_def theme_sync_def
      setCode_def elapse_def renderDiagram_def renderDiagram_settled_def setError_def
      diagramRef_current_def trim_empty_iff sample_texts catch_message_def preview_def js_def)

theorem error_is_not_replaced_by_valid_text_witness:
  "error (run [Elapse 500, Settled 0 (Resolved (js ''<svg>0</svg>'') True),
               SetCode text_AB, Elapse 500, Settled 1 (Resolved (js ''<svg>AB</svg>'') True),
               SetCode text_incomplete, Elapse 500,
               Settled 2 (Rejected (Some (js ''Parse error on line 2''))),
               SetCode text_AB, Elapse 500]
           (start None False))
     = js ''Parse error on line 2''"
  using error_is_not_replaced_by_valid_text
  by (simp add: preview_def split: if_splits)

subsection \<open>Overlapping renders\<close>

text \<open>
  The timeout's callback does not await \<^verbatim>\<open>renderDiagram\<close>, so a second call can be
  made while the first is awaited. The calls settle in the order they were made: the
  newer one cannot settle first, and when both resolve the result of the newer one is
  what remains shown.
\<close>

lemma newer_call_settles_last:
  assumes "inflight s = (i, c, th) # (j, c', th') # calls" and "i \<noteq> j"
    and "mounted s" and "error s = []"
  shows "renderDiagram_settled j out s = s"
    and "preview (renderDiagram_settled j (Resolved b hb)
           (renderDiagram_settled i (Resolved a ha) s)) = ShowDiagram (b, hb)"
  using assms
  by (simp_all add: renderDiagram_settled_def diagramRef_current_def preview_def)

text \<open>
  When no error is shown and the render that the debounce starts is the only one
  awaited, it is a call for the current text under the selected theme, and once it
  settles the preview shows its outcome.
\<close>

lemma lone_render_result_is_shown:
  assumes "session_inv s" and "error s = []" and "inflight s = []"
    and "timer s = Some (r, c, m)" and "r \<le> d" and "\<not> blank (code s)"
  shows "inflight (elapse d s) = [(idCounter s, code s, Some (mermaidTheme s))]
       \<and> preview (renderDiagram_settled (idCounter s) (Resolved svg h) (elapse d s))
           = ShowDiagram (svg, h)
       \<and> error (renderDiagram_settled (idCounter s) (Rejected msg) (elapse d s))
           = catch_message msg"
proof -
  from assms(1,4) have c: "c = code s" and m: "m" and mt: "mounted s"
    and th: "mermaid_theme s = Some (mermaidTheme s)"
    by (simp_all add: session_inv_def)
  have e: "elapse d s = s\<lparr>timer := None, idCounter := idCounter s + 1,
               inflight := [(idCounter s, code s, Some (mermaidTheme s))]\<rparr>"
    using assms(2,3,4,5,6) c m mt th
    by (simp add: elapse_def renderDiagram_calls)
  show ?thesis
    unfolding e using mt assms(2)
    by (simp add: settled_resolved settled_rejected preview_def)
qed

text \<open>
  C2 does not hold of the code. Call 0, for the incomplete text, is still awaited when
  the text is replaced by one that renders and, the debounce over, call 1 is made for
  it. Call 0 is rejected: its error is shown and the ref is taken off the diagram
  \<^verbatim>\<open>div\<close>. Call 1 resolves: the assignment to \<^verbatim>\<open>diagramRef.current.innerHTML\<close>
  throws, the \<^verbatim>\<open>catch\<close> of line 177 takes it for a render error, and the preview
  shows the message of that \<^verbatim>\<open>TypeError\<close>. The result shown is not the one of the
  text and theme submitted last, whose markup is never shown.
\<close>

theorem superseded_rejection_replaces_newer_result:
  "inflight (run [SetCode text_incomplete, Elapse 500, SetCode text_AB, Elapse 500]
             (start None False))
     = [(0, text_incomplete, Some Default), (1, text_AB, Some Default)]
   \<and> preview (run [SetCode text_incomplete, Elapse 500, SetCode text_AB, Elapse 500,
                 Settled 0 (Rejected (Some (js ''Parse error on line 2'')))]
             (start None False))
     = ShowError (js ''Parse error on line 2'') ([], False)
   \<and> preview (run [SetCode text_incomplete, Elapse 500, SetCode text_AB, Elapse 500,
                 Settled 0 (Rejected (Some (js ''Parse error on line 2''))),
                 Settled 1 (Resolved (js ''<svg>AB</svg>'') True)]
             (start None False))
     = ShowError null_innerHTML_message ([], False)
   \<and> code (run [SetCode text_incomplete, Elapse 500, SetCode text_AB, Elapse 500,
                 Settled 0 (Rejected (Some (js ''Parse error on line 2''))),
                 Settled 1 (Resolved (js ''<svg>AB</svg>'') True)]
             (start None False))
     = text_AB
   \<and> inflight (run [SetCode text_incomplete, Elapse 500, SetCode text_AB, Elapse 500,
                 Settled 0 (Rejected (Some (js ''Parse error on line 2''))),
                 Settled 1 (Resolved (js ''<svg>AB</svg>'') True)]
             (start None False))
     = []"
proof -
  have "text_incomplete \<noteq> templates_flowchart"
    by (simp add: text_incomplete_def templates_flowchart_def js_def)
  moreover have "null_innerHTML_message \<noteq> []"
    by (simp add: null_innerHTML_message_def js_def)
  ultimately show ?thesis
    by (simp add: start_def initial_def arm_def initialize_def load_saved_def theme_sync_def
      setCode_def elapse_def renderDiagram_def renderDiagram_settled_def setError_def
      diagramRef_current_def trim_empty_iff sample_texts
      catch_message_def preview_def js_def)
qed

theorem superseded_rejection_replaces_newer_result_witness:
  "error (run [SetCode text_incomplete, Elapse 500, SetCode text_AB, Elapse 500,
               Settled 0 (Rejected (Some (js ''Parse error on line 2''))),
               Settled 1 (Resolved (js ''<svg>AB</svg>'') True)]
           (start None False))
     = null_innerHTML_message
   \<and> innerHTML (run [SetCode text_incomplete, Elapse 500, SetCode text_AB, Elapse 500,
               Settled 0 (Rejected (Some (js ''Parse error on line 2''))),
               Settled 1 (Resolved (js ''<svg>AB</svg>'') True)]
           (start None False))
     = []"
  using superseded_rejection_replaces_newer_result
  by (simp add: preview_def split: if_splits)

subsection \<open>The debounce\<close>

lemma burst_append: "burst (es @ fs) s = burst fs (burst es s)"
  by (induction es arbitrary: s) auto

text \<open>
  A submission that repeats the current text, or the current theme, changes nothing:
  the pending timeout is neither cancelled nor replaced.
\<close>

lemma repeated_submission:
  "step (SetCode (code s)) s = s" "step (SetMermaidTheme (mermaidTheme s)) s = s"
  by (simp_all add: setCode_def setMermaidTheme_def)

text \<open>
  An edit that changes the text or the theme replaces the pending timeout by a fresh one
  of 500 ms for the current text, and does nothing else to the pipeline.
\<close>

lemma edit_rearms:
  assumes "session_inv s"
  shows "t \<noteq> code s \<Longrightarrow>
           step (SetCode t) s = s\<lparr>code := t, timer := Some (500, t, True)\<rparr>"
    and "x \<noteq> mermaidTheme s \<Longrightarrow>
           step (SetMermaidTheme x) s =
             s\<lparr>mermaidTheme := x, mermaid_theme := Some x, timer := Some (500, code s, True)\<rparr>"
  using assms by (simp_all add: session_inv_def setCode_new setMermaidTheme_new)

text \<open>
  Through a burst in which less than 500 ms pass from each edit to the next, with renders
  started earlier resolving in between, no timeout fires: no render is started, no
  error appears, the text and theme are those submitted last, and the timeout armed by
  the last edit is the one pending.
\<close>

lemma burst_pending:
  assumes "session_inv s" and "error s = []" and "pending t s"
    and "rapid t es" and "changing (code s) (mermaidTheme s) es"
  shows "session_inv (burst es s) \<and> error (burst es s) = []
       \<and> idCounter (burst es s) = idCounter s
       \<and> code (burst es s) = last_code (code s) es
       \<and> mermaidTheme (burst es s) = last_theme (mermaidTheme s) es
       \<and> pending (since t es) (burst es s)"
  using assms
proof (induction es arbitrary: s t)
  case Nil
  then show ?case by simp
next
  case (Cons p es)
  obtain e d where p: "p = (e, d)" by (cases p)
  have inv1: "session_inv (step e s)"
    using Cons.prems(1) by (rule session_inv_step)
  have inv2: "session_inv (elapse d (step e s))"
    using inv1 by (rule inv_elapse)
  show ?case
  proof (cases e)
    case (SetCode x)
    with Cons.prems(4,5) p have d: "d < 500" and x: "x \<noteq> code s"
      and r: "rapid (Some d) es" and ch: "changing x (mermaidTheme s) es"
      by simp_all
    have s1: "step e s = s\<lparr>code := x, timer := Some (500, x, True)\<rparr>"
      using SetCode x edit_rearms(1)[OF Cons.prems(1)] by simp
    have s2: "elapse d (step e s) = s\<lparr>code := x, timer := Some (500 - d, x, True)\<rparr>"
      unfolding s1 using d by (simp add: elapse_def)
    have "session_inv (burst es (elapse d (step e s))) \<and> error (burst es (elapse d (step e s))) = []
       \<and> idCounter (burst es (elapse d (step e s))) = idCounter (elapse d (step e s))
       \<and> code (burst es (elapse d (step e s))) = last_code (code (elapse d (step e s))) es
       \<and> mermaidTheme (burst es (elapse d (step e s)))
           = last_theme (mermaidTheme (elapse d (step e s))) es
       \<and> pending (since (Some d) es) (burst es (elapse d (step e s)))"
      using inv2 Cons.prems(2) d r ch
      by (intro Cons.IH) (simp_all add: s2 del: step.simps)
    moreover have "burst (p # es) s = burst es (elapse d (step e s))"
      "last_code (code s) (p # es) = last_code x es"
      "last_theme (mermaidTheme s) (p # es) = last_theme (mermaidTheme s) es"
      "since t (p # es) = since (Some d) es"
      using p SetCode by simp_all
    ultimately show ?thesis
      by (simp add: s2 del: step.simps)
  next
    case (SetMermaidTheme x)
    with Cons.prems(4,5) p have d: "d < 500" and x: "x \<noteq> mermaidTheme s"
      and r: "rapid (Some d) es" and ch: "changing (code s) x es"
      by simp_all
    have s1: "step e s = s\<lparr>mermaidTheme := x, mermaid_theme := Some x,
                           timer := Some (500, code s, True)\<rparr>"
      using SetMermaidTheme x edit_rearms(2)[OF Cons.prems(1)] by simp
    have s2: "elapse d (step e s) = s\<lparr>mermaidTheme := x, mermaid_theme := Some x,
                           timer := Some (500 - d, code s, True)\<rparr>"
      unfolding s1 using d by (simp add: elapse_def)
    have "session_inv (burst es (elapse d (step e s))) \<and> error (burst es (elapse d (step e s))) = []
       \<and> idCounter (burst es (elapse d (step e s))) = idCounter (elapse d (step e s))
       \<and> code (burst es (elapse d (step e s))) = last_code (code (elapse d (step e s))) es
       \<and> mermaidTheme (burst es (elapse d (step e s)))
           = last_theme (mermaidTheme (elapse d (step e s))) es
       \<and> pending (since (Some d) es) (burst es (elapse d (step e s)))"
      using inv2 Cons.prems(2) d r ch
      by (intro Cons.IH) (simp_all add: s2 del: step.simps)
    moreover have "burst (p # es) s = burst es (elapse d (step e s))"
      "last_code (code s) (p # es) = last_code (code s) es"
      "last_theme (mermaidTheme s) (p # es) = last_theme x es"
      "since t (p # es) = since (Some d) es"
      using p SetMermaidTheme by simp_all
    ultimately show ?thesis
      by (simp add: s2 del: step.simps)
  next
    case (Settled i out)
    with Cons.prems(4) p obtain svg h t' where out: "out = Resolved svg h" and t: "t = Some t'"
      by (cases out; cases t) simp_all
    from Cons.prems(4,5) p Settled out t
    have d: "t' + d < 500" and r: "rapid (Some (t' + d)) es"
      and ch: "changing (code s) (mermaidTheme s) es"
      by simp_all
    from Cons.prems(3) t have tm: "timer s = Some (500 - t', code s, True)"
      by simp
    have mt: "mounted s" using Cons.prems(1) by (simp add: session_inv_def)
    have f1: "error (step e s) = []" "idCounter (step e s) = idCounter s"
      "code (step e s) = code s" "mermaidTheme (step e s) = mermaidTheme s"
      "timer (step e s) = timer s"
      using Settled out Cons.prems(2) mt
      by (simp_all add: renderDiagram_settled_def diagramRef_current_def split: list.splits)
    have s2: "elapse d (step e s) = (step e s)\<lparr>timer := Some (500 - (t' + d), code s, True)\<rparr>"
      using f1(5) tm d by (simp add: elapse_def)
    have "session_inv (burst es (elapse d (step e s))) \<and> error (burst es (elapse d (step e s))) = []
       \<and> idCounter (burst es (elapse d (step e s))) = idCounter (elapse d (step e s))
       \<and> code (burst es (elapse d (step e s))) = last_code (code (elapse d (step e s))) es
       \<and> mermaidTheme (burst es (elapse d (step e s)))
           = last_theme (mermaidTheme (elapse d (step e s))) es
       \<and> pending (since (Some (t' + d)) es) (burst es (elapse d (step e s)))"
      using inv2 d r ch f1
      by (intro Cons.IH) (simp_all add: s2 del: step.simps)
    moreover have "burst (p # es) s = burst es (elapse d (step e s))"
      "last_code (code s) (p # es) = last_code (code s) es"
      "last_theme (mermaidTheme s) (p # es) = last_theme (mermaidTheme s) es"
      "since t (p # es) = since (Some (t' + d)) es"
      using p Settled out t by simp_all
    ultimately show ?thesis
      using f1 by (simp add: s2 del: step.simps)
  qed (use Cons.prems(4) p in simp_all)
qed

text \<open>
  C1, as stated, fails in two ways. A burst of edits that ends in a blank text is
  followed by no render at all: the counter has not moved and nothing is awaited when
  the debounce is over. And a submission that repeats the current text (the same
  template clicked again) is dropped by React and does not cancel the pending timeout:
  of three submissions 300 ms apart, the first is rendered after 500 ms and the third
  after it, two renders.
\<close>

theorem debounce_counterexample:
  "idCounter (run [SetCode text_AB, Elapse 100, SetCode [32], Elapse 500] (start None False)) = 0
   \<and> inflight (run [SetCode text_AB, Elapse 100, SetCode [32], Elapse 500] (start None False))
        = []
   \<and> timer (run [SetCode text_AB, Elapse 100, SetCode [32], Elapse 500] (start None False))
        = None
   \<and> timer (run [SetCode text_AB, Elapse 300, SetCode text_AB] (start None False))
        = Some (200, text_AB, True)
   \<and> inflight (run [SetCode text_AB, Elapse 300, SetCode text_AB, Elapse 300,
                    SetCode text_incomplete, Elapse 500] (start None False))
        = [(0, text_AB, Some Default), (1, text_incomplete, Some Default)]"
proof -
  have "[32] \<noteq> text_AB" and "blank [32]"
    by (simp_all add: text_AB_def js_def blank_def isWhiteSpace_def)
  then show ?thesis
    by (simp add: start_def initial_def arm_def initialize_def load_saved_def theme_sync_def
      setCode_def elapse_def renderDiagram_def setError_def
      diagramRef_current_def trim_empty_iff sample_texts)
qed

text \<open>
  C1, amended. In a reachable state with no error shown, let edits that each change the
  text or the theme follow one another in less than 500 ms, renders started earlier
  resolving in between or not, and let 500 ms or more pass after the last edit. Then no
  render is started during the burst; the timeout pending at its end is the one the
  last edit armed, for the last text, every earlier one having been cancelled; and when
  the 500 ms have passed the timeout is gone and, unless the text submitted last is
  blank, exactly one call of \<^verbatim>\<open>mermaid.render\<close> has been made, with the text submitted
  last and under the theme selected last. If that text is blank no call has been made.
  In any state, a submission that repeats the current text or theme changes nothing.
\<close>

theorem debounce_renders_last_submission_once:
  assumes "session_inv s" and "error s = []"
    and "rapid None es" and "changing (code s) (mermaidTheme s) es"
    and "since None es = Some t" and "500 \<le> t + d"
  shows "idCounter (burst es s) = idCounter s
       \<and> timer (burst es s) = Some (500 - t, last_code (code s) es, True)
       \<and> timer (elapse d (burst es s)) = None
       \<and> idCounter (elapse d (burst es s))
           = (if blank (last_code (code s) es) then idCounter s else idCounter s + 1)
       \<and> inflight (elapse d (burst es s))
           = (if blank (last_code (code s) es) then inflight (burst es s)
              else inflight (burst es s)
                   @ [(idCounter s, last_code (code s) es,
                       Some (last_theme (mermaidTheme s) es))])
       \<and> code (elapse d (burst es s)) = last_code (code s) es
       \<and> mermaidTheme (elapse d (burst es s)) = last_theme (mermaidTheme s) es
       \<and> step (SetCode (code q)) q = q
       \<and> step (SetMermaidTheme (mermaidTheme q)) q = q"
proof -
  let ?q = "burst es s"
  let ?c = "last_code (code s) es"
  have "pending None s" by simp
  from burst_pending[OF assms(1,2) this assms(3,4)] assms(5)
  have inv: "session_inv ?q" and q: "error ?q = []" "idCounter ?q = idCounter s"
    "code ?q = ?c" "mermaidTheme ?q = last_theme (mermaidTheme s) es"
    and tm: "timer ?q = Some (500 - t, ?c, True)" and t: "t < 500"
    by simp_all
  from inv have m: "mounted ?q" and mt: "mermaid_theme ?q = Some (mermaidTheme ?q)"
    by (simp_all add: session_inv_def)
  have fires: "elapse d ?q = renderDiagram ?c True (?q\<lparr>timer := None\<rparr>)"
    using tm assms(6) by (simp add: elapse_fires)
  show ?thesis
  proof (cases "blank ?c")
    case True
    then have "elapse d ?q = ?q\<lparr>timer := None\<rparr>"
      using fires by (simp add: renderDiagram_returns)
    with True show ?thesis
      using q tm by (simp add: setCode_def setMermaidTheme_def)
  next
    case False
    then have "elapse d ?q =
        ?q\<lparr>timer := None, idCounter := idCounter s + 1,
            inflight := inflight ?q @ [(idCounter s, ?c, Some (last_theme (mermaidTheme s) es))]\<rparr>"
      using fires m mt q by (simp add: renderDiagram_calls)
    with False show ?thesis
      using q tm by (simp add: setCode_def setMermaidTheme_def)
  qed
qed

theorem debounce_renders_last_submission_once_witness:
  "session_inv (start None False) \<and> error (start None False) = []
   \<and> rapid None [(SetCode text_incomplete, 120), (SetMermaidTheme Forest, 300),
                  (Settled 7 (Resolved (js ''<svg/>'') True), 150), (SetCode text_AB, 0)]
   \<and> changing (code (start None False)) (mermaidTheme (start None False))
        [(SetCode text_incomplete, 120), (SetMermaidTheme Forest, 300),
         (Settled 7 (Resolved (js ''<svg/>'') True), 150), (SetCode text_AB, 0)]
   \<and> since None [(SetCode text_incomplete, 120), (SetMermaidTheme Forest, 300),
                  (Settled 7 (Resolved (js ''<svg/>'') True), 150), (SetCode text_AB, 0)]
        = Some 0
   \<and> (500 :: nat) \<le> 0 + 500
   \<and> idCounter (burst [(SetCode text_incomplete, 120), (SetMermaidTheme Forest, 300),
         (Settled 7 (Resolved (js ''<svg/>'') True), 150), (SetCode text_AB, 0)]
        (start None False)) = 0
   \<and> timer (burst [(SetCode text_incomplete, 120), (SetMermaidTheme Forest, 300),
         (Settled 7 (Resolved (js ''<svg/>'') True), 150), (SetCode text_AB, 0)]
        (start None False)) = Some (500, text_AB, True)
   \<and> idCounter (elapse 500 (burst [(SetCode text_incomplete, 120),
         (SetMermaidTheme Forest, 300),
         (Settled 7 (Resolved (js ''<svg/>'') True), 150), (SetCode text_AB, 0)]
        (start None False))) = 1
   \<and> timer (elapse 500 (burst [(SetCode text_incomplete, 120),
         (SetMermaidTheme Forest, 300),
         (Settled 7 (Resolved (js ''<svg/>'') True), 150), (SetCode text_AB, 0)]
        (start None False))) = None"
proof -
  have ne: "text_incomplete \<noteq> templates_flowchart"
    by (simp add: text_incomplete_def templates_flowchart_def js_def)
  show ?thesis
    using debounce_renders_last_submission_once[of "start None False"
        "[(SetCode text_incomplete, 120), (SetMermaidTheme Forest, 300),
          (Settled 7 (Resolved (js ''<svg/>'') True), 150), (SetCode text_AB, 0)]" 0 500]
      session_inv_start[of None False] ne
    by (simp add: start_fields sample_texts)
qed

end
